theory Spec2Isabelle
  imports Main
begin

section \<open>JavaScript numbers and their string form\<close>

text \<open>
  \<^verbatim>\<open>CardGroup\<close> interpolates its prop \<^verbatim>\<open>cols: number\<close> into a template literal, which
  applies the language's \<^verbatim>\<open>Number::toString\<close> (radix 10). That operation looks at a number
  only through its case (NaN, a zero, an infinity, finite and non-zero) and, in the last
  case, through its sign and its shortest decimal form: the integers \<open>s\<close> and \<open>n\<close> with
  \<open>k\<close> the number of decimal digits of \<open>s\<close>, such that the number is
  \<open>s \<times> 10\<^sup>n\<^sup>-\<^sup>k\<close>. A number is modelled by exactly this information, so
  \<open>3\<close> is \<open>Finite False 3 1\<close>, \<open>1.5\<close> is \<open>Finite False 15 1\<close> and \<open>-0.5\<close> is
  \<open>Finite True 5 0\<close>. The flag of \<open>Zero\<close> and \<open>Infinity\<close> is the sign bit.
  The type has more values than there are doubles (any \<open>s\<close> and \<open>n\<close>), which only
  widens what the statements below quantify over.
\<close>

datatype number = NaN | Infinity bool | Zero bool | Finite bool nat int

definition digit_char :: "nat \<Rightarrow> char" where
  "digit_char d = ''0123456789'' ! d"

fun digits :: "nat \<Rightarrow> string" where
  "digits n = (if n < 10 then [digit_char n] else digits (n div 10) @ [digit_char (n mod 10)])"

declare digits.simps [simp del]

text \<open>
  Steps 5 to 11 of \<^verbatim>\<open>Number::toString\<close> for a positive finite number with digits \<open>s\<close>
  and decimal exponent \<open>n\<close>: plain digits with trailing zeros, a decimal point inside the
  digits, a leading \<^verbatim>\<open>0.\<close>, or exponent notation when \<open>n\<close> is outside \<open>-5 .. 21\<close>.
\<close>

definition finite_to_string :: "nat \<Rightarrow> int \<Rightarrow> string" where
  "finite_to_string s n =
     (let ds = digits s; k = int (length ds) in
      if -5 \<le> n \<and> n \<le> 21 then
        (if n \<ge> k then ds @ replicate (nat (n - k)) (CHR ''0'')
         else if n > 0 then take (nat n) ds @ ''.'' @ drop (nat n) ds
         else ''0.'' @ replicate (nat (- n)) (CHR ''0'') @ ds)
      else
        (let e = (if n < 0 then ''-'' else ''+'') @ digits (nat \<bar>n - 1\<bar>) in
         if k = 1 then ds @ ''e'' @ e
         else take 1 ds @ ''.'' @ drop 1 ds @ ''e'' @ e))"

fun number_to_string :: "number \<Rightarrow> string" where
  "number_to_string NaN = ''NaN''"
| "number_to_string (Zero neg) = ''0''"
| "number_to_string (Infinity neg) = (if neg then ''-Infinity'' else ''Infinity'')"
| "number_to_string (Finite neg s n) = (if neg then ''-'' else '''') @ finite_to_string s n"

text \<open>
  The number denoted by an integer literal: its digits without the trailing zeros, and
  its digit count as the exponent. (Exact for the safe integers, up to \<open>2\<^sup>5\<^sup>3 - 1\<close> in
  absolute value.)
\<close>

fun strip_zeros :: "nat \<Rightarrow> nat" where
  "strip_zeros s = (if s \<noteq> 0 \<and> s mod 10 = 0 then strip_zeros (s div 10) else s)"

declare strip_zeros.simps [simp del]

definition number_of_int :: "int \<Rightarrow> number" where
  "number_of_int i =
     (if i = 0 then Zero False
      else Finite (i < 0) (strip_zeros (nat \<bar>i\<bar>)) (int (length (digits (nat \<bar>i\<bar>)))))"

section \<open>React nodes\<close>

text \<open>
  A renderable value (\<^verbatim>\<open>React.ReactNode\<close>): the primitives, an array of nodes, or an
  element. An element has a type (a host tag such as \<^verbatim>\<open>div\<close>, or a component such as the
  imported \<^verbatim>\<open>Link\<close>), its props other than \<^verbatim>\<open>children\<close> in source order (all of them
  strings in this file), and \<^verbatim>\<open>props.children\<close>, absent when the element was written
  with no child.
\<close>

datatype elem_type = Host string | Component string

datatype node =
    Undefined
  | Null
  | Bool bool
  | Str string
  | Num number
  | Arr "node list"
  | Element elem_type "(string \<times> string) list" "node option"

text \<open>
  What a JSX expression evaluates to: \<^verbatim>\<open>props.children\<close> is left out with no child, is the
  child itself with one child, and is the array of the children otherwise.
\<close>

definition createElement :: "elem_type \<Rightarrow> (string \<times> string) list \<Rightarrow> node list \<Rightarrow> node" where
  "createElement ty config cs =
     Element ty config (case cs of [] \<Rightarrow> None | [c] \<Rightarrow> Some c | _ \<Rightarrow> Some (Arr cs))"

section \<open>The components\<close>

record CardProps =
  title :: string
  icon :: string
  href :: string
  children :: node

record CardGroupProps =
  cols :: number
  children :: node

definition Link :: elem_type where
  "Link = Component ''Link''"

definition Card :: "'a CardProps_scheme \<Rightarrow> node" where
  "Card props =
     createElement Link [(''to'', href props), (''className'', ''card'')]
       [createElement (Host ''h3'') [] [Str (title props)],
        createElement (Host ''i'') [(''className'', ''icon-'' @ icon props)] [],
        createElement (Host ''p'') [] [CardProps.children props]]"

definition CardGroup :: "'a CardGroupProps_scheme \<Rightarrow> node" where
  "CardGroup props =
     createElement (Host ''div'')
       [(''className'', ''card-group cols-'' @ number_to_string (cols props))]
       [CardGroupProps.children props]"

section \<open>Observations on nodes\<close>

fun elem_type_of :: "node \<Rightarrow> elem_type option" where
  "elem_type_of (Element ty ps c) = Some ty"
| "elem_type_of _ = None"

fun get_prop :: "string \<Rightarrow> node \<Rightarrow> string option" where
  "get_prop k (Element ty ps c) = map_of ps k"
| "get_prop k _ = None"

fun props_children :: "node \<Rightarrow> node option" where
  "props_children (Element ty ps c) = c"
| "props_children _ = None"

text \<open>
  The sequence of children a children value stands for: arrays are flattened, and
  \<^verbatim>\<open>null\<close>, \<^verbatim>\<open>undefined\<close> and the booleans render nothing.
\<close>

fun toArray :: "node \<Rightarrow> node list" where
  "toArray (Arr xs) = concat (map toArray xs)"
| "toArray Null = []"
| "toArray Undefined = []"
| "toArray (Bool b) = []"
| "toArray n = [n]"

definition child_nodes :: "node \<Rightarrow> node list" where
  "child_nodes e = (case props_children e of None \<Rightarrow> [] | Some c \<Rightarrow> toArray c)"

text \<open>The number of elements of type \<open>ty\<close> in a tree.\<close>

fun count_elems :: "elem_type \<Rightarrow> node \<Rightarrow> nat" where
  "count_elems ty (Element ty' ps c) =
     (if ty' = ty then 1 else 0) + (case c of None \<Rightarrow> 0 | Some n \<Rightarrow> count_elems ty n)"
| "count_elems ty (Arr xs) = sum_list (map (count_elems ty) xs)"
| "count_elems ty _ = 0"

text \<open>The \<^verbatim>\<open>className\<close> strings of a tree, in document order.\<close>

fun class_names :: "node \<Rightarrow> string list" where
  "class_names (Element ty ps c) =
     (case map_of ps ''className'' of None \<Rightarrow> [] | Some s \<Rightarrow> [s])
     @ (case c of None \<Rightarrow> [] | Some n \<Rightarrow> class_names n)"
| "class_names (Arr xs) = concat (map class_names xs)"
| "class_names _ = []"

text \<open>An element without one of its props; the rest of the tree is kept.\<close>

fun drop_prop :: "string \<Rightarrow> node \<Rightarrow> node" where
  "drop_prop k (Element ty ps c) = Element ty (filter (\<lambda>kv. fst kv \<noteq> k) ps) c"
| "drop_prop k n = n"

section \<open>Decimal rendering of integers\<close>

lemma digits_length_le: "n < 10 ^ k \<Longrightarrow> 0 < k \<Longrightarrow> length (digits n) \<le> k"
proof (induction n arbitrary: k rule: digits.induct)
  case (1 n)
  show ?case
  proof (cases "n < 10")
    case True
    with 1(3) show ?thesis by (subst digits.simps) simp
  next
    case False
    obtain j where k: "k = Suc j" using 1(3) by (cases k) auto
    have "j \<noteq> 0" using False 1(2) k by (cases j) auto
    moreover have "n div 10 < 10 ^ j" using 1(2) k by (simp add: less_mult_imp_div_less)
    ultimately have "length (digits (n div 10)) \<le> j" using 1(1) [OF False] by simp
    with False k show ?thesis by (subst digits.simps) simp
  qed
qed

lemma digits_strip_zeros:
  "\<exists>m. digits s = digits (strip_zeros s) @ replicate m (CHR ''0'')"
proof (induction s rule: strip_zeros.induct)
  case (1 s)
  show ?case
  proof (cases "s \<noteq> 0 \<and> s mod 10 = 0")
    case True
    from 1 [OF True] obtain m
      where m: "digits (s div 10) = digits (strip_zeros (s div 10)) @ replicate m (CHR ''0'')" ..
    from True have ge: "\<not> s < 10" by auto
    have "digits s = digits (s div 10) @ [CHR ''0'']"
      using True ge by (subst digits.simps) (simp add: digit_char_def)
    moreover have "strip_zeros s = strip_zeros (s div 10)"
      using True by (subst strip_zeros.simps) simp
    ultimately have "digits s = digits (strip_zeros s) @ replicate (Suc m) (CHR ''0'')"
      using m by (simp add: replicate_append_same)
    then show ?thesis by blast
  next
    case False
    then have "strip_zeros s = s" by (subst strip_zeros.simps) auto
    then have "digits s = digits (strip_zeros s) @ replicate 0 (CHR ''0'')" by simp
    then show ?thesis by blast
  qed
qed

lemma finite_to_string_integer:
  assumes "length (digits s) \<le> 21"
  shows "finite_to_string (strip_zeros s) (int (length (digits s))) = digits s"
proof -
  obtain m where m: "digits s = digits (strip_zeros s) @ replicate m (CHR ''0'')"
    using digits_strip_zeros by blast
  then have len: "length (digits s) = length (digits (strip_zeros s)) + m"
    by (metis length_append length_replicate)
  show ?thesis
    using assms len m by (simp add: finite_to_string_def Let_def)
qed

text \<open>A safe integer other than zero prints as its sign and its decimal digits.\<close>

lemma number_to_string_of_int:
  assumes "i \<noteq> 0" and "\<bar>i\<bar> \<le> 9007199254740991"
  shows "number_to_string (number_of_int i) = (if i < 0 then ''-'' else '''') @ digits (nat \<bar>i\<bar>)"
proof -
  have "nat \<bar>i\<bar> < 10 ^ 16" using assms(2) by simp
  then have "length (digits (nat \<bar>i\<bar>)) \<le> 16" by (rule digits_length_le) simp
  then have "length (digits (nat \<bar>i\<bar>)) \<le> 21" by simp
  then show ?thesis using assms(1) by (simp add: number_of_int_def finite_to_string_integer)
qed

section \<open>Card\<close>

text \<open>
  C1. For all props, \<^verbatim>\<open>Card\<close> returns a single element, of type \<^verbatim>\<open>Link\<close>, whose
  destination prop \<^verbatim>\<open>to\<close> is \<open>href\<close>. It is the only link \<^verbatim>\<open>Card\<close> itself creates: the
  links of the output are this one and those the caller passed inside \<open>children\<close>. Among
  the link's children are the heading \<^verbatim>\<open><h3>\<close> whose content is \<open>title\<close> and the
  paragraph \<^verbatim>\<open><p>\<close> whose content is \<open>children\<close>. For the props
  \<^verbatim>\<open>{title:"Guide", icon:"book", href:"/guide"}\<close> with the child
  \<^verbatim>\<open>"Learn the basics"\<close> the output is a link to \<^verbatim>\<open>/guide\<close> holding
  \<^verbatim>\<open><h3>Guide</h3>\<close>, an element of class \<^verbatim>\<open>icon-book\<close> and
  \<^verbatim>\<open><p>Learn the basics</p>\<close>, and it has exactly one link.
\<close>

theorem Card_renders_link:
  "elem_type_of (Card p) = Some Link
   \<and> get_prop ''to'' (Card p) = Some (href p)
   \<and> count_elems Link (Card p) = 1 + count_elems Link (CardProps.children p)
   \<and> Element (Host ''h3'') [] (Some (Str (title p))) \<in> set (child_nodes (Card p))
   \<and> Element (Host ''p'') [] (Some (CardProps.children p)) \<in> set (child_nodes (Card p))
   \<and> Card \<lparr>title = ''Guide'', icon = ''book'', href = ''/guide'',
             children = Str ''Learn the basics''\<rparr> =
       Element Link [(''to'', ''/guide''), (''className'', ''card'')]
         (Some (Arr [Element (Host ''h3'') [] (Some (Str ''Guide'')),
                     Element (Host ''i'') [(''className'', ''icon-book'')] None,
                     Element (Host ''p'') [] (Some (Str ''Learn the basics''))]))
   \<and> count_elems Link
        (Card \<lparr>title = ''Guide'', icon = ''book'', href = ''/guide'',
               children = Str ''Learn the basics''\<rparr>) = 1"
  by (simp add: Card_def createElement_def Link_def child_nodes_def)

text \<open>
  C4. For every string \<open>icon\<close>, the link has exactly one glyph element \<^verbatim>\<open><i>\<close> among its
  children, and its class is the string \<^verbatim>\<open>icon-\<close> followed by \<open>icon\<close> as it was given:
  \<^verbatim>\<open>rocket\<close> gives \<^verbatim>\<open>icon-rocket\<close>, and an icon with capitals and a space is kept
  as it is.
\<close>

theorem Card_glyph_class:
  "filter (\<lambda>n. elem_type_of n = Some (Host ''i'')) (child_nodes (Card p)) =
     [Element (Host ''i'') [(''className'', ''icon-'' @ icon p)] None]
   \<and> map (get_prop ''className'')
        (filter (\<lambda>n. elem_type_of n = Some (Host ''i'')) (child_nodes (Card p))) =
     [Some (''icon-'' @ icon p)]
   \<and> map (get_prop ''className'')
        (filter (\<lambda>n. elem_type_of n = Some (Host ''i''))
           (child_nodes (Card \<lparr>title = t, icon = ''rocket'', href = h, children = ch\<rparr>))) =
     [Some ''icon-rocket'']
   \<and> map (get_prop ''className'')
        (filter (\<lambda>n. elem_type_of n = Some (Host ''i''))
           (child_nodes (Card \<lparr>title = t, icon = ''My Icon'', href = h, children = ch\<rparr>))) =
     [Some ''icon-My Icon'']"
  by (simp add: Card_def createElement_def child_nodes_def)

text \<open>
  C8. For every string \<open>href\<close> the link's destination prop \<^verbatim>\<open>to\<close> is that string,
  unchanged; \<^verbatim>\<open>Card\<close> has no error result, so the empty string and a malformed
  reference are passed on like any other.
\<close>

theorem Card_href_verbatim:
  "get_prop ''to'' (Card p) = Some (href p)
   \<and> get_prop ''to'' (Card \<lparr>title = t, icon = ic, href = h, children = ch\<rparr>) = Some h
   \<and> get_prop ''to'' (Card \<lparr>title = t, icon = ic, href = '''', children = ch\<rparr>) = Some ''''
   \<and> get_prop ''to'' (Card \<lparr>title = t, icon = ic, href = ''ht!tp://[ x'', children = ch\<rparr>)
       = Some ''ht!tp://[ x''"
  by (simp add: Card_def createElement_def)

text \<open>
  C9. The link's children are, in this order, the heading \<^verbatim>\<open><h3>\<close> holding \<open>title\<close>,
  the glyph \<^verbatim>\<open><i>\<close> and the paragraph \<^verbatim>\<open><p>\<close> holding \<open>children\<close>; the glyph has no
  \<^verbatim>\<open>children\<close> prop and no child.
\<close>

theorem Card_children_order:
  "props_children (Card p) =
     Some (Arr [Element (Host ''h3'') [] (Some (Str (title p))),
                Element (Host ''i'') [(''className'', ''icon-'' @ icon p)] None,
                Element (Host ''p'') [] (Some (CardProps.children p))])
   \<and> map elem_type_of (child_nodes (Card p)) =
       [Some (Host ''h3''), Some (Host ''i''), Some (Host ''p'')]
   \<and> map props_children (child_nodes (Card p)) =
       [Some (Str (title p)), None, Some (CardProps.children p)]
   \<and> map child_nodes (child_nodes (Card p)) =
       [[Str (title p)], [], toArray (CardProps.children p)]"
  by (simp add: Card_def createElement_def child_nodes_def)

section \<open>CardGroup\<close>

text \<open>
  C2. For all props, \<^verbatim>\<open>CardGroup\<close> returns a single \<^verbatim>\<open><div>\<close>, the only one it creates
  itself, whose class is \<^verbatim>\<open>card-group cols-\<close> followed by the string form of \<open>cols\<close>. For
  a positive (safe) integer that string form is its decimal digits, and \<open>cols = 3\<close> gives
  \<^verbatim>\<open>card-group cols-3\<close>.
\<close>

theorem CardGroup_class:
  "elem_type_of (CardGroup p) = Some (Host ''div'')
   \<and> get_prop ''className'' (CardGroup p) =
       Some (''card-group cols-'' @ number_to_string (cols p))
   \<and> count_elems (Host ''div'') (CardGroup p) =
       1 + count_elems (Host ''div'') (CardGroupProps.children p)
   \<and> (0 < i \<and> i \<le> 9007199254740991 \<longrightarrow>
        get_prop ''className'' (CardGroup \<lparr>cols = number_of_int i, children = ch\<rparr>) =
        Some (''card-group cols-'' @ digits (nat i)))
   \<and> get_prop ''className'' (CardGroup \<lparr>cols = number_of_int 3, children = ch\<rparr>) =
       Some ''card-group cols-3''"
proof -
  have three: "number_to_string (number_of_int 3) = ''3''"
    by code_simp
  show ?thesis
    by (simp add: CardGroup_def createElement_def number_to_string_of_int three)
qed

theorem CardGroup_class_witness:
  "(0::int) < 12 \<and> (12::int) \<le> 9007199254740991
   \<and> get_prop ''className'' (CardGroup \<lparr>cols = number_of_int 12, children = Null\<rparr>) =
       Some ''card-group cols-12''"
proof -
  have d: "digits 12 = ''12''"
    by code_simp
  show ?thesis
    using CardGroup_class [of "\<lparr>cols = NaN, children = Null\<rparr>" 12 Null] by (simp add: d)
qed

text \<open>
  C3. The \<^verbatim>\<open>children\<close> prop of the \<^verbatim>\<open><div>\<close> is the \<open>children\<close> value that
  \<^verbatim>\<open>CardGroup\<close> received, so the container's sequence of children is that of the input:
  nothing added, nothing left out, the order kept. With \<open>cols = 2\<close> and the two cards
  \<open>Card a\<close>, \<open>Card b\<close> as children, the container of class \<^verbatim>\<open>card-group cols-2\<close> holds
  \<open>Card a\<close> and then \<open>Card b\<close>.
\<close>

theorem CardGroup_children:
  "props_children (CardGroup p) = Some (CardGroupProps.children p)
   \<and> child_nodes (CardGroup p) = toArray (CardGroupProps.children p)
   \<and> get_prop ''className''
        (CardGroup \<lparr>cols = number_of_int 2, children = Arr [Card a, Card b]\<rparr>)
       = Some ''card-group cols-2''
   \<and> child_nodes (CardGroup \<lparr>cols = number_of_int 2, children = Arr [Card a, Card b]\<rparr>)
       = [Card a, Card b]"
proof -
  have two: "number_to_string (number_of_int 2) = ''2''"
    by code_simp
  have "toArray (Card a) = [Card a]" "toArray (Card b) = [Card b]"
    by (simp_all add: Card_def createElement_def)
  then show ?thesis
    by (simp add: CardGroup_def createElement_def child_nodes_def two)
qed

text \<open>
  C7. \<^verbatim>\<open>CardGroup\<close> has no error result and no test on \<open>cols\<close>: for every number,
  whatever its sign and whether or not it is an integer, the output is the \<^verbatim>\<open><div>\<close>
  whose class is \<^verbatim>\<open>card-group cols-\<close> followed by the string form of that number. So
  \<open>0\<close>, \<open>-1\<close>, \<open>1.5\<close>, NaN and \<open>-\<infinity>\<close> give the classes \<^verbatim>\<open>card-group cols-0\<close>,
  \<^verbatim>\<open>card-group cols--1\<close>, \<^verbatim>\<open>card-group cols-1.5\<close>, \<^verbatim>\<open>card-group cols-NaN\<close> and
  \<^verbatim>\<open>card-group cols--Infinity\<close>.
\<close>

theorem CardGroup_any_cols:
  "CardGroup \<lparr>cols = c, children = ch\<rparr> =
     Element (Host ''div'') [(''className'', ''card-group cols-'' @ number_to_string c)] (Some ch)
   \<and> get_prop ''className'' (CardGroup \<lparr>cols = Zero False, children = ch\<rparr>)
       = Some ''card-group cols-0''
   \<and> get_prop ''className'' (CardGroup \<lparr>cols = number_of_int (- 1), children = ch\<rparr>)
       = Some ''card-group cols--1''
   \<and> get_prop ''className'' (CardGroup \<lparr>cols = Finite False 15 1, children = ch\<rparr>)
       = Some ''card-group cols-1.5''
   \<and> get_prop ''className'' (CardGroup \<lparr>cols = NaN, children = ch\<rparr>)
       = Some ''card-group cols-NaN''
   \<and> get_prop ''className'' (CardGroup \<lparr>cols = Infinity True, children = ch\<rparr>)
       = Some ''card-group cols--Infinity''"
proof -
  have "number_to_string (number_of_int (- 1)) = ''-1''"
    by code_simp
  moreover have "number_to_string (Finite False 15 1) = ''1.5''"
    by code_simp
  ultimately show ?thesis
    by (simp add: CardGroup_def createElement_def)
qed

text \<open>
  C10. For two numbers \<open>c1\<close>, \<open>c2\<close> and the same children, the two outputs of
  \<^verbatim>\<open>CardGroup\<close> are equal once the \<^verbatim>\<open>className\<close> prop of the container is removed, and
  both hold the children that were given. The output depends on \<open>cols\<close> through the
  class string alone: two numbers with the same string form give equal outputs.
\<close>

theorem CardGroup_cols_frame:
  "drop_prop ''className'' (CardGroup \<lparr>cols = c1, children = ch\<rparr>) =
     drop_prop ''className'' (CardGroup \<lparr>cols = c2, children = ch\<rparr>)
   \<and> props_children (CardGroup \<lparr>cols = c1, children = ch\<rparr>) = Some ch
   \<and> props_children (CardGroup \<lparr>cols = c2, children = ch\<rparr>) = Some ch
   \<and> (number_to_string c1 = number_to_string c2 \<longrightarrow>
        CardGroup \<lparr>cols = c1, children = ch\<rparr> = CardGroup \<lparr>cols = c2, children = ch\<rparr>)"
  by (simp add: CardGroup_def createElement_def)

theorem CardGroup_cols_frame_witness:
  "number_to_string (Zero False) = number_to_string (Zero True)
   \<and> CardGroup \<lparr>cols = Zero False, children = Str ''x''\<rparr> =
       CardGroup \<lparr>cols = Zero True, children = Str ''x''\<rparr>"
  using CardGroup_cols_frame [of "Zero False" "Str ''x''" "Zero True"] by simp

section \<open>Both components\<close>

text \<open>
  C5. The output of either component is determined by the props it reads: two props
  objects that agree on \<open>title\<close>, \<open>icon\<close>, \<open>href\<close> and \<open>children\<close> give equal
  \<^verbatim>\<open>Card\<close> outputs, and two that agree on \<open>cols\<close> and \<open>children\<close> give equal
  \<^verbatim>\<open>CardGroup\<close> outputs, whatever else the objects carry. In particular two calls
  with identical props return structurally identical trees.
\<close>

theorem render_deterministic:
  "(title p = title q \<and> icon p = icon q \<and> href p = href q
      \<and> CardProps.children p = CardProps.children q \<longrightarrow> Card p = Card q)
   \<and> (cols g = cols h \<and> CardGroupProps.children g = CardGroupProps.children h
      \<longrightarrow> CardGroup g = CardGroup h)"
  by (simp add: Card_def CardGroup_def)

theorem render_deterministic_witness:
  "Card \<lparr>title = ''Guide'', icon = ''book'', href = ''/guide'',
         children = Str ''Learn the basics''\<rparr>
     = Card \<lparr>title = ''Guide'', icon = ''book'', href = ''/guide'',
         children = Str ''Learn the basics'', \<dots> = True\<rparr>
   \<and> CardGroup \<lparr>cols = number_of_int 2, children = Arr [Str ''a'', Str ''b'']\<rparr>
     = CardGroup \<lparr>cols = number_of_int 2, children = Arr [Str ''a'', Str ''b''], \<dots> = False\<rparr>"
  using render_deterministic
    [of "\<lparr>title = ''Guide'', icon = ''book'', href = ''/guide'',
         children = Str ''Learn the basics''\<rparr>"
        "\<lparr>title = ''Guide'', icon = ''book'', href = ''/guide'',
         children = Str ''Learn the basics'', \<dots> = True\<rparr>"
        "\<lparr>cols = number_of_int 2, children = Arr [Str ''a'', Str ''b'']\<rparr>"
        "\<lparr>cols = number_of_int 2, children = Arr [Str ''a'', Str ''b''], \<dots> = False\<rparr>"]
  by simp

text \<open>
  C6. The link that \<^verbatim>\<open>Card\<close> returns has the class \<^verbatim>\<open>card\<close>, exactly. Of its three
  children only the glyph \<^verbatim>\<open><i>\<close> has a class, \<^verbatim>\<open>icon-\<close> followed by \<open>icon\<close>; the
  heading and the paragraph have none. The element that \<^verbatim>\<open>CardGroup\<close> returns is the
  \<^verbatim>\<open><div>\<close> that holds the given children, and its class is \<^verbatim>\<open>card-group cols-\<close>
  followed by the string form of \<open>cols\<close>. These are the only classes the components
  add: the class strings of each output, in document order, are the ones named here
  followed by those the given children carry. For the Guide card they are \<^verbatim>\<open>card\<close>
  and \<^verbatim>\<open>icon-book\<close>; the container has the class \<^verbatim>\<open>card-group cols-3\<close> at
  \<open>cols = 3\<close> and \<^verbatim>\<open>card-group cols-2.5\<close> at \<open>cols = 2.5\<close>; a group of two cards
  with \<open>cols = 3\<close> has \<^verbatim>\<open>card-group cols-3\<close>, \<^verbatim>\<open>card\<close>, \<^verbatim>\<open>icon-book\<close>,
  \<^verbatim>\<open>card\<close>, \<^verbatim>\<open>icon-rocket\<close>.
\<close>

theorem emitted_class_names:
  "elem_type_of (Card p) = Some Link
   \<and> get_prop ''className'' (Card p) = Some ''card''
   \<and> map (\<lambda>n. (elem_type_of n, get_prop ''className'' n)) (child_nodes (Card p)) =
       [(Some (Host ''h3''), None),
        (Some (Host ''i''), Some (''icon-'' @ icon p)),
        (Some (Host ''p''), None)]
   \<and> class_names (Card p) = [''card'', ''icon-'' @ icon p] @ class_names (CardProps.children p)
   \<and> elem_type_of (CardGroup g) = Some (Host ''div'')
   \<and> get_prop ''className'' (CardGroup g) =
       Some (''card-group cols-'' @ number_to_string (cols g))
   \<and> props_children (CardGroup g) = Some (CardGroupProps.children g)
   \<and> class_names (CardGroup g) =
       [''card-group cols-'' @ number_to_string (cols g)]
       @ class_names (CardGroupProps.children g)
   \<and> class_names (Card \<lparr>title = ''Guide'', icon = ''book'', href = ''/guide'',
                         children = Str ''Learn the basics''\<rparr>) = [''card'', ''icon-book'']
   \<and> get_prop ''className'' (CardGroup \<lparr>cols = number_of_int 3, children = Null\<rparr>) =
       Some ''card-group cols-3''
   \<and> get_prop ''className'' (CardGroup \<lparr>cols = Finite False 25 1, children = Null\<rparr>) =
       Some ''card-group cols-2.5''
   \<and> class_names
        (CardGroup \<lparr>cols = number_of_int 3,
                    children = Arr [Card \<lparr>title = ''Guide'', icon = ''book'', href = ''/guide'',
                                          children = Str ''Learn the basics''\<rparr>,
                                    Card \<lparr>title = ''API'', icon = ''rocket'', href = ''/api'',
                                          children = Str ''Reference''\<rparr>]\<rparr>) =
       [''card-group cols-3'', ''card'', ''icon-book'', ''card'', ''icon-rocket'']"
proof -
  have three: "number_to_string (number_of_int 3) = ''3''"
    by code_simp
  have frac: "finite_to_string 25 1 = ''2.5''"
    by code_simp
  show ?thesis
    by (simp add: Card_def CardGroup_def createElement_def child_nodes_def Link_def three frac)
qed

end
